theory Spec2Isabelle
  imports Complex_Main
begin

section \<open>Numbers: float64 values with exact finite arithmetic\<close>

text \<open>
  The program computes on numpy \<open>float64\<close> values. A value is modelled as a real number
  or one of the three special values of IEEE 754: plus infinity, minus infinity and
  not-a-number. The special values follow the IEEE rules that numpy applies (it warns and
  goes on; it does not raise): \<open>inf - inf\<close>, \<open>0 * inf\<close>, \<open>inf / inf\<close> and
  \<open>0 / 0\<close> are NaN, NaN is absorbing, \<open>x / 0\<close> is an infinity of the sign of \<open>x\<close>.
  The operations \<open>+\<close>, \<open>-\<close>, \<open>*\<close> and \<open>/\<close> give the exact result on finite values; the
  rounding of float64 is a step of its own (\<open>rn\<close>, further down) that the force model
  with rounding applies after each operation. Zero carries no sign.
\<close>

datatype f64 = Fin real | PInf | NInf | NaN

definition signed_inf :: "real \<Rightarrow> f64" where
  "signed_inf s = (if s > 0 then PInf else if s < 0 then NInf else NaN)"

instantiation f64 :: "{zero, one, plus, uminus, minus, times, divide, power}"
begin

definition zero_f64 :: f64 where
  "zero_f64 = Fin 0"

definition one_f64 :: f64 where
  "one_f64 = Fin 1"

fun uminus_f64 :: "f64 \<Rightarrow> f64" where
  "uminus_f64 (Fin x) = Fin (- x)"
| "uminus_f64 PInf = NInf"
| "uminus_f64 NInf = PInf"
| "uminus_f64 NaN = NaN"

fun plus_f64 :: "f64 \<Rightarrow> f64 \<Rightarrow> f64" where
  "plus_f64 (Fin x) (Fin y) = Fin (x + y)"
| "plus_f64 NaN b = NaN"
| "plus_f64 a NaN = NaN"
| "plus_f64 PInf NInf = NaN"
| "plus_f64 NInf PInf = NaN"
| "plus_f64 PInf b = PInf"
| "plus_f64 a PInf = PInf"
| "plus_f64 NInf b = NInf"
| "plus_f64 a NInf = NInf"

definition minus_f64 :: "f64 \<Rightarrow> f64 \<Rightarrow> f64" where
  "minus_f64 a b = a + (- b)"

fun times_f64 :: "f64 \<Rightarrow> f64 \<Rightarrow> f64" where
  "times_f64 (Fin x) (Fin y) = Fin (x * y)"
| "times_f64 NaN b = NaN"
| "times_f64 a NaN = NaN"
| "times_f64 (Fin x) PInf = signed_inf x"
| "times_f64 (Fin x) NInf = signed_inf (- x)"
| "times_f64 PInf (Fin y) = signed_inf y"
| "times_f64 NInf (Fin y) = signed_inf (- y)"
| "times_f64 PInf PInf = PInf"
| "times_f64 PInf NInf = NInf"
| "times_f64 NInf PInf = NInf"
| "times_f64 NInf NInf = PInf"

fun divide_f64 :: "f64 \<Rightarrow> f64 \<Rightarrow> f64" where
  "divide_f64 (Fin x) (Fin y) = (if y = 0 then signed_inf x else Fin (x / y))"
| "divide_f64 NaN b = NaN"
| "divide_f64 a NaN = NaN"
| "divide_f64 (Fin x) PInf = Fin 0"
| "divide_f64 (Fin x) NInf = Fin 0"
| "divide_f64 PInf (Fin y) = (if y < 0 then NInf else PInf)"
| "divide_f64 NInf (Fin y) = (if y < 0 then PInf else NInf)"
| "divide_f64 PInf b = NaN"
| "divide_f64 NInf b = NaN"

instance ..

end

instantiation f64 :: inverse
begin

definition inverse_f64 :: "f64 \<Rightarrow> f64" where
  "inverse_f64 a = Fin 1 div a"

instance ..

end

text \<open>\<open>numpy.sqrt\<close>: NaN on a negative argument.\<close>

fun fsqrt :: "f64 \<Rightarrow> f64" where
  "fsqrt (Fin x) = (if x < 0 then NaN else Fin (sqrt x))"
| "fsqrt PInf = PInf"
| "fsqrt NInf = NaN"
| "fsqrt NaN = NaN"

fun is_finite :: "f64 \<Rightarrow> bool" where
  "is_finite (Fin x) = True"
| "is_finite PInf = False"
| "is_finite NInf = False"
| "is_finite NaN = False"

section \<open>Vectors\<close>

text \<open>
  A row of a \<open>(3, 2)\<close> array (one position, velocity or force) is a pair; a flat array
  (the state vector, the masses) is a list. The operations are numpy's elementwise ones.
\<close>

type_synonym vec2 = "f64 \<times> f64"

definition zeros2 :: vec2 where
  "zeros2 = (Fin 0, Fin 0)"

definition finite2 :: "vec2 \<Rightarrow> bool" where
  "finite2 v = (is_finite (fst v) \<and> is_finite (snd v))"

definition vsub2 :: "vec2 \<Rightarrow> vec2 \<Rightarrow> vec2" where
  "vsub2 a b = (fst a - fst b, snd a - snd b)"

definition vadd2 :: "vec2 \<Rightarrow> vec2 \<Rightarrow> vec2" where
  "vadd2 a b = (fst a + fst b, snd a + snd b)"

definition vneg2 :: "vec2 \<Rightarrow> vec2" where
  "vneg2 a = (- fst a, - snd a)"

definition smul2 :: "f64 \<Rightarrow> vec2 \<Rightarrow> vec2" where
  "smul2 c v = (c * fst v, c * snd v)"

definition sdiv2 :: "vec2 \<Rightarrow> f64 \<Rightarrow> vec2" where
  "sdiv2 v c = (fst v / c, snd v / c)"

text \<open>\<open>np.linalg.norm\<close> of a vector of two components: the root of the sum of squares.\<close>

definition norm2 :: "vec2 \<Rightarrow> f64" where
  "norm2 v = fsqrt (fst v * fst v + snd v * snd v)"

text \<open>Flat arrays: \<open>a + b\<close>, \<open>a * c\<close>, \<open>c * a\<close> and \<open>a / c\<close> with a scalar \<open>c\<close>.\<close>

definition vadd :: "f64 list \<Rightarrow> f64 list \<Rightarrow> f64 list" where
  "vadd a b = map2 (+) a b"

definition vscale :: "f64 list \<Rightarrow> f64 \<Rightarrow> f64 list" where
  "vscale a c = map (\<lambda>x. x * c) a"

definition scalev :: "f64 \<Rightarrow> f64 list \<Rightarrow> f64 list" where
  "scalev c a = map (\<lambda>x. c * x) a"

definition vdivs :: "f64 list \<Rightarrow> f64 \<Rightarrow> f64 list" where
  "vdivs a c = map (\<lambda>x. x / c) a"

datatype error = ValueError | IndexError | OverflowError

text \<open>
  \<open>a.reshape((3, 2))\<close> of a flat array: three rows when it has six elements, ValueError
  otherwise. \<open>flatten\<close> is the way back.
\<close>

fun reshape32 :: "f64 list \<Rightarrow> error + vec2 list" where
  "reshape32 [a, b, c, d, e, f] = Inr [(a, b), (c, d), (e, f)]"
| "reshape32 _ = Inl ValueError"

definition flatten :: "vec2 list \<Rightarrow> f64 list" where
  "flatten vs = concat (map (\<lambda>v. [fst v, snd v]) vs)"

section \<open>Force model\<close>

definition G :: f64 where
  "G = Fin (667430 / 10 ^ 16)"

definition gravitational_force :: "f64 \<Rightarrow> f64 \<Rightarrow> vec2 \<Rightarrow> vec2 \<Rightarrow> vec2" where
  "gravitational_force m1 m2 r1 r2 =
     (let r = norm2 (vsub2 r2 r1) in
      if r = 0 then zeros2
      else sdiv2 (smul2 (G * m1 * m2) (vsub2 r2 r1)) (r ^ 3))"

section \<open>Rounding, and the force model with rounded operations\<close>

text \<open>
  IEEE 754 binary64 rounds the exact result of each operation to the nearest value
  \<open>m * 2 ^ e\<close> with \<open>|m| < 2 ^ 53\<close> and \<open>e \<ge> -1074\<close>, a tie to the even \<open>m\<close>, and to
  an infinity from \<open>2 ^ 1024\<close> on: \<open>rnd64\<close>. Results below \<open>2 ^ -1022\<close> keep the
  exponent \<open>-1074\<close> (subnormal numbers), so that a result below \<open>2 ^ -1075\<close> is zero.
  The float literal \<open>6.67430e-11\<close> is the rounded decimal.
\<close>

definition round_half_even :: "real \<Rightarrow> int" where
  "round_half_even y =
     (let n = \<lfloor>y\<rfloor>; d = y - of_int n in
      if d < 1/2 then n else if 1/2 < d then n + 1 else if even n then n else n + 1)"

definition ulp_exponent :: "real \<Rightarrow> int" where
  "ulp_exponent x = max (- 1074) (\<lfloor>log 2 \<bar>x\<bar>\<rfloor> - 52)"

definition rnd64 :: "real \<Rightarrow> f64" where
  "rnd64 x =
     (if x = 0 then Fin 0
      else
        let e = ulp_exponent x;
            y = of_int (round_half_even (x / 2 powi e)) * 2 powi e
        in if 2 ^ 1024 \<le> \<bar>y\<bar> then (if 0 < x then PInf else NInf) else Fin y)"

fun rn :: "f64 \<Rightarrow> f64" where
  "rn (Fin x) = rnd64 x"
| "rn PInf = PInf"
| "rn NInf = NInf"
| "rn NaN = NaN"

text \<open>
  The operations of float64: the exact result, rounded. The cube \<open>r ** 3\<close> is taken as
  the rounded exact cube and the norm as the root of the sum of the two rounded squares.
\<close>

definition add64 :: "f64 \<Rightarrow> f64 \<Rightarrow> f64" where
  "add64 a b = rn (a + b)"

definition sub64 :: "f64 \<Rightarrow> f64 \<Rightarrow> f64" where
  "sub64 a b = rn (a - b)"

definition mul64 :: "f64 \<Rightarrow> f64 \<Rightarrow> f64" where
  "mul64 a b = rn (a * b)"

definition div64 :: "f64 \<Rightarrow> f64 \<Rightarrow> f64" where
  "div64 a b = rn (a / b)"

definition sqrt64 :: "f64 \<Rightarrow> f64" where
  "sqrt64 a = rn (fsqrt a)"

definition cube64 :: "f64 \<Rightarrow> f64" where
  "cube64 a = rn (a ^ 3)"

definition G64 :: f64 where
  "G64 = rnd64 (667430 / 10 ^ 16)"

definition vsub2_64 :: "vec2 \<Rightarrow> vec2 \<Rightarrow> vec2" where
  "vsub2_64 a b = (sub64 (fst a) (fst b), sub64 (snd a) (snd b))"

definition smul2_64 :: "f64 \<Rightarrow> vec2 \<Rightarrow> vec2" where
  "smul2_64 c v = (mul64 c (fst v), mul64 c (snd v))"

definition sdiv2_64 :: "vec2 \<Rightarrow> f64 \<Rightarrow> vec2" where
  "sdiv2_64 v c = (div64 (fst v) c, div64 (snd v) c)"

definition norm2_64 :: "vec2 \<Rightarrow> f64" where
  "norm2_64 v = sqrt64 (add64 (mul64 (fst v) (fst v)) (mul64 (snd v) (snd v)))"

text \<open>
  \<open>gravitational_force\<close> once more, operation for operation, each one rounded: the
  product \<open>G * m1 * m2\<close> is evaluated from the left.
\<close>

definition gravitational_force64 :: "f64 \<Rightarrow> f64 \<Rightarrow> vec2 \<Rightarrow> vec2 \<Rightarrow> vec2" where
  "gravitational_force64 m1 m2 r1 r2 =
     (let r = norm2_64 (vsub2_64 r2 r1) in
      if r = 0 then zeros2
      else sdiv2_64 (smul2_64 (mul64 (mul64 G64 m1) m2) (vsub2_64 r2 r1)) (cube64 r))"

section \<open>Derivative function\<close>

text \<open>
  The two nested loops over \<open>range(3)\<close> update the row \<open>forces[i]\<close> in place. The
  accesses \<open>masses[i]\<close>, \<open>masses[j]\<close> raise IndexError on fewer than three masses, and the
  division by \<open>masses[:, np.newaxis]\<close> raises ValueError unless there are three of them,
  so that the loops only run on indices that exist.
\<close>

definition forces_inner :: "nat \<Rightarrow> f64 list \<Rightarrow> vec2 list \<Rightarrow> vec2 list \<Rightarrow> vec2 list" where
  "forces_inner i masses positions forces =
     fold (\<lambda>j fs.
            if i \<noteq> j
            then fs[i := vadd2 (fs ! i)
                   (gravitational_force (masses ! i) (masses ! j) (positions ! i) (positions ! j))]
            else fs)
          [0..<3] forces"

definition forces_loop :: "f64 list \<Rightarrow> vec2 list \<Rightarrow> vec2 list" where
  "forces_loop masses positions =
     fold (\<lambda>i fs. forces_inner i masses positions fs) [0..<3] (replicate 3 zeros2)"

definition derivatives :: "f64 list \<Rightarrow> f64 list \<Rightarrow> error + f64 list" where
  "derivatives state masses =
     (case reshape32 (take 6 state) of
        Inl e \<Rightarrow> Inl e
      | Inr positions \<Rightarrow>
          (case reshape32 (drop 6 state) of
             Inl e \<Rightarrow> Inl e
           | Inr velocities \<Rightarrow>
               if length masses < 3 then Inl IndexError
               else
                 let forces = forces_loop masses positions in
                 if length masses \<noteq> 3 then Inl ValueError
                 else Inr (flatten velocities @ flatten (map2 sdiv2 forces masses))))"

section \<open>RK4 stepper\<close>

text \<open>
  An exception of \<open>derivatives\<close> leaves \<open>runge_kutta_step\<close>. When \<open>derivatives\<close>
  returns, its argument and its result have twelve elements, so the elementwise sums
  below are on arrays of equal length.
\<close>

definition runge_kutta_step :: "f64 list \<Rightarrow> f64 list \<Rightarrow> f64 \<Rightarrow> error + f64 list" where
  "runge_kutta_step state masses dt =
     (case derivatives state masses of
        Inl e \<Rightarrow> Inl e
      | Inr d1 \<Rightarrow>
          let k1 = vscale d1 dt in
          (case derivatives (vadd state (scalev (Fin (1/2)) k1)) masses of
             Inl e \<Rightarrow> Inl e
           | Inr d2 \<Rightarrow>
               let k2 = vscale d2 dt in
               (case derivatives (vadd state (scalev (Fin (1/2)) k2)) masses of
                  Inl e \<Rightarrow> Inl e
                | Inr d3 \<Rightarrow>
                    let k3 = vscale d3 dt in
                    (case derivatives (vadd state k3) masses of
                       Inl e \<Rightarrow> Inl e
                     | Inr d4 \<Rightarrow>
                         let k4 = vscale d4 dt in
                         Inr (vadd state
                                (vdivs (vadd (vadd (vadd k1 (scalev (Fin 2) k2))
                                                   (scalev (Fin 2) k3)) k4)
                                       (Fin 6)))))))"

section \<open>Initial conditions and one update\<close>

definition initial_masses :: "f64 list" where
  "initial_masses = [Fin (1989 * 10 ^ 27), Fin (1989 * 10 ^ 27), Fin (1989 * 10 ^ 27)]"

definition initial_positions :: "vec2 list" where
  "initial_positions =
     [(Fin (1496 * 10 ^ 8), Fin 0), (Fin (- (1496 * 10 ^ 8)), Fin 0), (Fin 0, Fin 0)]"

definition initial_velocities :: "vec2 list" where
  "initial_velocities = [(Fin 0, Fin 29800), (Fin 0, Fin (- 29800)), (Fin 0, Fin 1000)]"

definition initial_dt :: f64 where
  "initial_dt = Fin 20000"

text \<open>
  \<open>initialize_simulation\<close> has no parameter, no check and no raise: it builds the state
  from the literals of the source.
\<close>

definition initialize_simulation :: "error + (f64 list \<times> f64 list \<times> f64)" where
  "initialize_simulation =
     (let masses = initial_masses;
          positions = initial_positions;
          velocities = initial_velocities;
          state = flatten positions @ flatten velocities;
          dt = initial_dt
      in Inr (masses, state, dt))"

definition update_simulation ::
  "f64 list \<Rightarrow> f64 list \<Rightarrow> f64 \<Rightarrow> error + (f64 list \<times> vec2 list)" where
  "update_simulation state masses dt =
     (case runge_kutta_step state masses dt of
        Inl e \<Rightarrow> Inl e
      | Inr new_state \<Rightarrow>
          (case reshape32 (take 6 new_state) of
             Inl e \<Rightarrow> Inl e
           | Inr positions \<Rightarrow> Inr (new_state, positions)))"

section \<open>Trajectory history, drawing and the main loop\<close>

text \<open>
  A trajectory is a \<open>collections.deque\<close> created with \<open>maxlen\<close>, oldest position
  first. The deque is Python's own: \<open>append\<close> adds on the right and, when that makes
  the deque longer than \<open>maxlen\<close>, drops the leftmost element.
\<close>

definition deque_append :: "nat \<Rightarrow> 'a list \<Rightarrow> 'a \<Rightarrow> 'a list" where
  "deque_append maxlen d x = (let d' = d @ [x] in if length d' > maxlen then tl d' else d')"

text \<open>The guard of the \<open>popleft\<close> in \<open>draw_simulation\<close>.\<close>

definition evicts :: "nat \<Rightarrow> 'a list \<Rightarrow> bool" where
  "evicts max_orbit_length trajectory = (length trajectory > max_orbit_length)"

text \<open>
  What one iteration of the main loop does to the deque of one body: the \<open>append\<close> of
  the new position, then the guarded \<open>popleft\<close> of the drawing routine.
\<close>

definition history_frame :: "nat \<Rightarrow> 'a list \<Rightarrow> 'a \<Rightarrow> 'a list" where
  "history_frame max_orbit_length trajectory position =
     (let t = deque_append max_orbit_length trajectory position in
      if evicts max_orbit_length t then tl t else t)"

text \<open>Python's \<open>int\<close> of a float truncates towards zero and raises on NaN and infinity.\<close>

fun to_int :: "f64 \<Rightarrow> error + int" where
  "to_int (Fin x) = Inr (if 0 \<le> x then \<lfloor>x\<rfloor> else \<lceil>x\<rceil>)"
| "to_int PInf = Inl OverflowError"
| "to_int NInf = Inl OverflowError"
| "to_int NaN = Inl ValueError"

definition to_screen_coords :: "vec2 \<Rightarrow> int \<Rightarrow> int \<Rightarrow> f64 \<Rightarrow> error + (int \<times> int)" where
  "to_screen_coords position WIDTH HEIGHT SCALE =
     (case to_int (fst position / SCALE) of
        Inl e \<Rightarrow> Inl e
      | Inr a \<Rightarrow>
          (case to_int (snd position / SCALE) of
             Inl e \<Rightarrow> Inl e
           | Inr b \<Rightarrow> Inr (WIDTH div 2 + a, HEIGHT div 2 - b)))"

fun screen_points :: "vec2 list \<Rightarrow> int \<Rightarrow> int \<Rightarrow> f64 \<Rightarrow> error + (int \<times> int) list" where
  "screen_points [] WIDTH HEIGHT SCALE = Inr []"
| "screen_points (pos # rest) WIDTH HEIGHT SCALE =
     (case to_screen_coords pos WIDTH HEIGHT SCALE of
        Inl e \<Rightarrow> Inl e
      | Inr xy \<Rightarrow>
          (case screen_points rest WIDTH HEIGHT SCALE of
             Inl e \<Rightarrow> Inl e
           | Inr xys \<Rightarrow> Inr (xy # xys)))"

text \<open>
  \<open>draw_simulation\<close>, as far as the simulation data goes: the conversions to screen
  coordinates, which can raise, and the \<open>popleft\<close>, which changes a deque. The calls
  into pygame are left out. The result is the list of the three deques after the call.
\<close>

fun draw_loop ::
  "nat list \<Rightarrow> vec2 list \<Rightarrow> vec2 list list \<Rightarrow> int \<Rightarrow> int \<Rightarrow> f64 \<Rightarrow> nat \<Rightarrow> error + vec2 list list" where
  "draw_loop [] positions earth_trajectories WIDTH HEIGHT SCALE max_orbit_length =
     Inr earth_trajectories"
| "draw_loop (i # rest) positions earth_trajectories WIDTH HEIGHT SCALE max_orbit_length =
     (case to_screen_coords (positions ! i) WIDTH HEIGHT SCALE of
        Inl e \<Rightarrow> Inl e
      | Inr xy \<Rightarrow>
          (case (if length (earth_trajectories ! i) > 2
                 then screen_points (earth_trajectories ! i) WIDTH HEIGHT SCALE
                 else Inr []) of
             Inl e \<Rightarrow> Inl e
           | Inr orbit_points \<Rightarrow>
               draw_loop rest positions
                 (if evicts max_orbit_length (earth_trajectories ! i)
                  then earth_trajectories[i := tl (earth_trajectories ! i)]
                  else earth_trajectories)
                 WIDTH HEIGHT SCALE max_orbit_length))"

definition draw_simulation ::
  "vec2 list \<Rightarrow> vec2 list list \<Rightarrow> int \<Rightarrow> int \<Rightarrow> f64 \<Rightarrow> nat \<Rightarrow> error + vec2 list list" where
  "draw_simulation positions earth_trajectories WIDTH HEIGHT SCALE max_orbit_length =
     draw_loop [0..<3] positions earth_trajectories WIDTH HEIGHT SCALE max_orbit_length"

text \<open>
  The variables of \<open>main\<close> that change from one iteration to the next: the state vector
  and the three deques. One iteration is \<open>tick\<close>: the update, the three appends, the
  drawing. An exception ends the program, so that no state follows.
\<close>

record world =
  sim_state :: "f64 list"
  earth_trajectories :: "vec2 list list"

definition append_positions :: "nat \<Rightarrow> vec2 list list \<Rightarrow> vec2 list \<Rightarrow> vec2 list list" where
  "append_positions max_orbit_length trajs positions =
     map (\<lambda>i. deque_append max_orbit_length (trajs ! i) (positions ! i)) [0..<3]"

definition tick :: "f64 list \<Rightarrow> f64 \<Rightarrow> int \<Rightarrow> int \<Rightarrow> f64 \<Rightarrow> nat \<Rightarrow> world \<Rightarrow> error + world" where
  "tick masses dt WIDTH HEIGHT SCALE max_orbit_length w =
     (case update_simulation (sim_state w) masses dt of
        Inl e \<Rightarrow> Inl e
      | Inr (new_state, positions) \<Rightarrow>
          let trajs = append_positions max_orbit_length (earth_trajectories w) positions in
          (case draw_simulation positions trajs WIDTH HEIGHT SCALE max_orbit_length of
             Inl e \<Rightarrow> Inl e
           | Inr trajs' \<Rightarrow> Inr \<lparr>sim_state = new_state, earth_trajectories = trajs'\<rparr>))"

definition main_world :: "error + world" where
  "main_world =
     (case initialize_simulation of
        Inl e \<Rightarrow> Inl e
      | Inr (masses, state, dt) \<Rightarrow>
          Inr \<lparr>sim_state = state, earth_trajectories = replicate 3 []\<rparr>)"

definition main_tick :: "nat \<Rightarrow> world \<Rightarrow> error + world" where
  "main_tick max_orbit_length w =
     tick initial_masses initial_dt 800 800 (Fin 2000000000) max_orbit_length w"

text \<open>
  The states of \<open>main\<close> at the head of its loop, for a value of \<open>max_orbit_length\<close>
  (the source sets it to 1000).
\<close>

inductive main_reach :: "nat \<Rightarrow> world \<Rightarrow> bool" for max_orbit_length :: nat where
  start: "main_world = Inr w \<Longrightarrow> main_reach max_orbit_length w"
| step: "main_reach max_orbit_length w \<Longrightarrow> main_tick max_orbit_length w = Inr w'
          \<Longrightarrow> main_reach max_orbit_length w'"

section \<open>The specification's wording, for comparison with the code\<close>

text \<open>
  The net force on body \<open>i\<close> as the specification words it: the sum of the forces of
  the ordered pairs \<open>(i, j)\<close> with \<open>j\<close> different from \<open>i\<close>.
\<close>

definition spec_net_force :: "f64 list \<Rightarrow> vec2 list \<Rightarrow> nat \<Rightarrow> vec2" where
  "spec_net_force masses positions i =
     foldl vadd2 zeros2
       (map (\<lambda>j. gravitational_force (masses ! i) (masses ! j) (positions ! i) (positions ! j))
            (filter (\<lambda>j. j \<noteq> i) [0..<3]))"

section \<open>Finite values\<close>

text \<open>
  Predicates for the statements about the main loop: a flat array without NaN and
  infinities, a scalar that is finite and not zero, and a state of \<open>main\<close> whose state
  vector has twelve finite components and whose three deques hold finite positions.
\<close>

definition all_finite :: "f64 list \<Rightarrow> bool" where
  "all_finite xs = list_all is_finite xs"

definition finite_nonzero :: "f64 \<Rightarrow> bool" where
  "finite_nonzero a = (is_finite a \<and> a \<noteq> Fin 0)"

definition points_finite :: "vec2 list list \<Rightarrow> bool" where
  "points_finite trajs = list_all (list_all finite2) trajs"

definition world_finite :: "world \<Rightarrow> bool" where
  "world_finite w =
     (length (sim_state w) = 12 \<and> all_finite (sim_state w)
      \<and> length (earth_trajectories w) = 3 \<and> points_finite (earth_trajectories w))"

section \<open>Arithmetic of the number model\<close>

lemma f64_mult_1_right: "(a::f64) * 1 = a"
  by (cases a) (simp_all add: one_f64_def signed_inf_def)

lemma f64_pow3: "(a::f64) ^ 3 = a * (a * a)"
  by (simp add: numeral_3_eq_3 f64_mult_1_right)

lemma f64_minus_swap: "(a::f64) - b = - (b - a)"
  by (cases a; cases b) (simp_all add: minus_f64_def)

lemma f64_mult_neg_right: "(a::f64) * (- b) = - (a * b)"
  by (cases a; cases b) (auto simp: signed_inf_def)

lemma f64_mult_neg_neg: "(- (a::f64)) * (- a) = a * a"
  by (cases a) auto

lemma f64_div_neg_left: "(- (a::f64)) / b = - (a / b)"
  by (cases a; cases b) (auto simp: signed_inf_def)

lemma f64_sub_eq_0_iff: "(a::f64) - b = Fin 0 \<longleftrightarrow> (\<exists>x. a = Fin x \<and> b = Fin x)"
  by (cases a; cases b) (auto simp: minus_f64_def)

lemma f64_zero_add: "Fin 0 + (a::f64) = a"
  by (cases a) simp_all

lemma f64_half_mult: "Fin (1/2) * (a::f64) = a / Fin 2"
  by (cases a) (simp_all add: signed_inf_def)

section \<open>Force model: lemmas\<close>

lemma norm2_eq_0_iff: "norm2 v = 0 \<longleftrightarrow> v = zeros2"
proof (cases v)
  case (Pair a b)
  show ?thesis
    unfolding Pair norm2_def zeros2_def zero_f64_def
    by (cases a; cases b) (auto simp: signed_inf_def not_less split: if_splits)
qed

lemma vsub2_eq_zeros2_iff: "vsub2 a b = zeros2 \<longleftrightarrow> finite2 a \<and> a = b"
  by (cases a; cases b; cases "fst a"; cases "snd a")
     (auto simp: vsub2_def zeros2_def finite2_def f64_sub_eq_0_iff)

lemma vneg2_zeros2: "vneg2 zeros2 = zeros2"
  by (simp add: vneg2_def zeros2_def)

lemma vadd2_zeros2_left: "vadd2 zeros2 v = v"
  by (simp add: vadd2_def zeros2_def f64_zero_add)

text \<open>
  Rounding: it is symmetric in the sign, and its value at a given number follows from
  the binade of the number and the integer nearest to the scaled number.
\<close>

lemma round_half_even_near:
  assumes "of_int m - 1/2 < y" and "y < of_int m + 1/2"
  shows "round_half_even y = m"
proof (cases "of_int m \<le> y")
  case True
  then have "\<lfloor>y\<rfloor> = m"
    using assms(2) by (intro floor_unique) auto
  then show ?thesis
    using assms(2) by (simp add: round_half_even_def Let_def)
next
  case False
  then have "\<lfloor>y\<rfloor> = m - 1"
    using assms(1) by (intro floor_unique) auto
  then show ?thesis
    using assms(1) False by (simp add: round_half_even_def Let_def)
qed

lemma round_half_even_neg: "round_half_even (- y) = - round_half_even y"
proof -
  define n where "n = \<lfloor>y\<rfloor>"
  define d where "d = y - of_int n"
  have d: "0 \<le> d" "d < 1"
    unfolding d_def n_def by linarith+
  have y: "y = of_int n + d"
    by (simp add: d_def)
  show ?thesis
  proof (cases "d = 0")
    case True
    then have "\<lfloor>- y\<rfloor> = - n" "\<lfloor>y\<rfloor> = n"
      using y by simp_all
    then show ?thesis
      using True y by (simp add: round_half_even_def Let_def)
  next
    case False
    have f: "\<lfloor>- y\<rfloor> = - n - 1"
      using d False y by (intro floor_unique) auto
    have g: "\<lfloor>y\<rfloor> = n"
      by (simp add: n_def)
    have e: "even (- n - 1) \<longleftrightarrow> odd n"
      by simp
    show ?thesis
      unfolding round_half_even_def Let_def f g
      using d False e y by (auto simp: algebra_simps)
  qed
qed

lemma ulp_exponent_neg: "ulp_exponent (- x) = ulp_exponent x"
  by (simp add: ulp_exponent_def)

lemma rnd64_neg: "rnd64 (- x) = - rnd64 x"
  by (simp add: rnd64_def Let_def ulp_exponent_neg round_half_even_neg)

lemma rn_neg: "rn (- a) = - rn a"
  by (cases a) (simp_all add: rnd64_neg)

lemma floor_log2:
  assumes "2 powi k \<le> x" and "x < 2 powi (k + 1)"
  shows "\<lfloor>log 2 x\<rfloor> = k"
proof -
  have "0 < x"
    using assms(1) by (smt (verit) zero_less_power_int)
  moreover have "(2::real) powr real_of_int k = 2 powi k"
    "(2::real) powr (real_of_int k + 1) = 2 powi (k + 1)"
    using powr_real_of_int'[of 2 k] powr_real_of_int'[of 2 "k + 1"] by simp_all
  ultimately show ?thesis
    using assms by (simp add: floor_log_eq_powr_iff)
qed

lemma rnd64_eval:
  assumes "0 < x" and "2 powi k \<le> x" and "x < 2 powi (k + 1)"
    and "e = max (- 1074) (k - 52)"
    and "of_int m - 1/2 < x / 2 powi e" and "x / 2 powi e < of_int m + 1/2"
    and "0 \<le> m" and "of_int m * 2 powi e < (2::real) ^ 1024"
  shows "rnd64 x = Fin (of_int m * 2 powi e)"
proof -
  have "ulp_exponent x = e"
    using assms(1,4) floor_log2[OF assms(2,3)] by (simp add: ulp_exponent_def)
  moreover have "round_half_even (x / 2 powi e) = m"
    using assms(5,6) by (rule round_half_even_near)
  moreover have "\<bar>of_int m * 2 powi e\<bar> = of_int m * (2::real) powi e"
    using assms(7) by (simp add: abs_mult)
  ultimately show ?thesis
    using assms(1,8) by (simp add: rnd64_def Let_def)
qed




lemma round_half_even_tie:
  assumes "y = of_int m + 1/2" and "even m"
  shows "round_half_even y = m"
proof -
  have "\<lfloor>y\<rfloor> = m"
    unfolding assms(1) by (intro floor_unique) auto
  then show ?thesis
    using assms by (simp add: round_half_even_def Let_def)
qed

lemma rnd64_eval_tie:
  assumes "0 < x" and "2 powi k \<le> x" and "x < 2 powi (k + 1)"
    and "e = max (- 1074) (k - 52)"
    and "x / 2 powi e = of_int m + 1/2" and "even m"
    and "0 \<le> m" and "of_int m * 2 powi e < (2::real) ^ 1024"
  shows "rnd64 x = Fin (of_int m * 2 powi e)"
proof -
  have "ulp_exponent x = e"
    using assms(1,4) floor_log2[OF assms(2,3)] by (simp add: ulp_exponent_def)
  moreover have "round_half_even (x / 2 powi e) = m"
    using assms(5,6) by (rule round_half_even_tie)
  moreover have "\<bar>of_int m * 2 powi e\<bar> = of_int m * (2::real) powi e"
    using assms(7) by (simp add: abs_mult)
  ultimately show ?thesis
    using assms(1,8) by (simp add: rnd64_def Let_def)
qed

lemma sub64_swap: "sub64 a b = - sub64 b a"
  using f64_minus_swap[of a b] by (simp add: sub64_def rn_neg)

lemma mul64_neg_right: "mul64 a (- b) = - mul64 a b"
  by (simp add: mul64_def f64_mult_neg_right rn_neg)

lemma mul64_neg_neg: "mul64 (- a) (- a) = mul64 a a"
  by (simp add: mul64_def f64_mult_neg_neg)

lemma div64_neg_left: "div64 (- a) b = - div64 a b"
  by (simp add: div64_def f64_div_neg_left rn_neg)

lemma vsub2_64_swap: "vsub2_64 a b = vneg2 (vsub2_64 b a)"
  by (simp add: vsub2_64_def vneg2_def sub64_swap[of "fst a"] sub64_swap[of "snd a"])

lemma norm2_64_neg: "norm2_64 (vneg2 v) = norm2_64 v"
  by (simp add: norm2_64_def vneg2_def mul64_neg_neg)

lemma sdiv2_smul2_64_neg: "sdiv2_64 (smul2_64 c (vneg2 v)) d = vneg2 (sdiv2_64 (smul2_64 c v) d)"
  by (simp add: sdiv2_64_def smul2_64_def vneg2_def mul64_neg_right div64_neg_left)

lemma rnd64_one: "rnd64 1 = Fin 1"
proof -
  have "rnd64 1 = Fin (of_int 4503599627370496 * 2 powi (- 52))"
    by (rule rnd64_eval[where k = 0]) simp_all
  then show ?thesis
    by simp
qed

lemma rnd64_G: "rnd64 (667430 / 10 ^ 16) = Fin (of_int 5163989502626508 * 2 powi (- 86))"
  by (rule rnd64_eval[where k = "- 34"]) simp_all

lemma rnd64_G3:
  "rnd64 (of_int 5163989502626508 * 2 powi (- 86) * 3) = Fin (of_int 7745984253939762 * 2 powi (- 85))"
  by (rule rnd64_eval[where k = "- 33"]) simp_all

lemma rnd64_G37:
  "rnd64 (of_int 7745984253939762 * 2 powi (- 85) * 7) = Fin (of_int 6777736222197292 * 2 powi (- 82))"
  by (rule rnd64_eval[where k = "- 30"]) simp_all

lemma rnd64_G7:
  "rnd64 (of_int 5163989502626508 * 2 powi (- 86) * 7) = Fin (of_int 4518490814798194 * 2 powi (- 83))"
  by (rule rnd64_eval_tie[where k = "- 31"]) simp_all

lemma rnd64_G73:
  "rnd64 (of_int 4518490814798194 * 2 powi (- 83) * 3) = Fin (of_int 6777736222197291 * 2 powi (- 82))"
  by (rule rnd64_eval[where k = "- 30"]) simp_all

lemma rnd64_c12:
  "rnd64 (of_int 6777736222197292 * 2 powi (- 82)) = Fin (of_int 6777736222197292 * 2 powi (- 82))"
  by (rule rnd64_eval[where k = "- 30"]) simp_all

lemma rnd64_c21:
  "rnd64 (of_int 6777736222197291 * 2 powi (- 82)) = Fin (of_int 6777736222197291 * 2 powi (- 82))"
  by (rule rnd64_eval[where k = "- 30"]) simp_all

lemma G_3_7: "mul64 (mul64 G64 (Fin 3)) (Fin 7) = Fin (of_int 6777736222197292 * 2 powi (- 82))"
  unfolding G64_def rnd64_G mul64_def times_f64.simps rn.simps rnd64_G3 rnd64_G37 ..

lemma G_7_3: "mul64 (mul64 G64 (Fin 7)) (Fin 3) = Fin (of_int 6777736222197291 * 2 powi (- 82))"
  unfolding G64_def rnd64_G mul64_def times_f64.simps rn.simps rnd64_G7 rnd64_G73 ..

lemma unit_geometry:
  "vsub2_64 (Fin 1, Fin 0) (Fin 0, Fin 0) = (Fin 1, Fin 0)"
  "vsub2_64 (Fin 0, Fin 0) (Fin 1, Fin 0) = (Fin (- 1), Fin 0)"
  "norm2_64 (Fin 1, Fin 0) = Fin 1"
  "norm2_64 (Fin (- 1), Fin 0) = Fin 1"
  "cube64 (Fin 1) = Fin 1"
  using rnd64_neg[of 1]
  by (simp_all add: vsub2_64_def sub64_def minus_f64_def norm2_64_def sqrt64_def add64_def
        mul64_def cube64_def f64_pow3 rnd64_one rnd64_def[of 0])

lemma force_3_7:
  "gravitational_force64 (Fin 3) (Fin 7) (Fin 0, Fin 0) (Fin 1, Fin 0) =
     (Fin (of_int 6777736222197292 * 2 powi (- 82)), Fin 0)"
  unfolding gravitational_force64_def Let_def unit_geometry G_3_7
  by (simp add: zero_f64_def sdiv2_64_def smul2_64_def mul64_def div64_def rnd64_def[of 0]
        rnd64_c12[simplified])

lemma force_7_3:
  "gravitational_force64 (Fin 7) (Fin 3) (Fin 1, Fin 0) (Fin 0, Fin 0) =
     (Fin (- (of_int 6777736222197291 * 2 powi (- 82))), Fin 0)"
  unfolding gravitational_force64_def Let_def unit_geometry G_7_3
  using rnd64_neg[of "of_int 6777736222197291 * 2 powi (- 82)"]
  by (simp add: zero_f64_def sdiv2_64_def smul2_64_def mul64_def div64_def rnd64_def[of 0]
        rnd64_c21[simplified])






lemma gravitational_force64_coincident:
  assumes "finite2 r"
  shows "gravitational_force64 m1 m2 r r = zeros2"
proof -
  obtain x y where r: "r = (Fin x, Fin y)"
    using assms by (cases r; cases "fst r"; cases "snd r") (auto simp: finite2_def)
  have "norm2_64 (vsub2_64 r r) = 0"
    by (simp add: r vsub2_64_def sub64_def minus_f64_def norm2_64_def sqrt64_def add64_def
          mul64_def rnd64_def[of 0] zero_f64_def)
  then show ?thesis
    by (simp add: gravitational_force64_def)
qed

section \<open>Force model: the claims\<close>

text \<open>
  C4, as the code has it. For all masses and every position \<open>r\<close> with finite coordinates,
  the force model on \<open>r1 = r2 = r\<close> returns the zero vector, and it raises nothing.
  The masses may be any values, NaN and the infinities included.
\<close>

theorem gravitational_force_coincident:
  assumes "finite2 r"
  shows "gravitational_force m1 m2 r r = zeros2"
proof -
  have "vsub2 r r = zeros2"
    using assms by (simp add: vsub2_eq_zeros2_iff)
  then show ?thesis
    by (simp add: gravitational_force_def Let_def norm2_eq_0_iff)
qed

theorem gravitational_force_coincident_witness:
  "finite2 (Fin 3, Fin 4) \<and> gravitational_force NaN (Fin 2) (Fin 3, Fin 4) (Fin 3, Fin 4) = (Fin 0, Fin 0)"
  using gravitational_force_coincident [of "(Fin 3, Fin 4)" NaN "Fin 2"]
  by (simp add: finite2_def zeros2_def)

text \<open>
  C4, as the specification has it (every position), fails on a position with an infinite
  coordinate: \<open>inf - inf\<close> is NaN, the distance is NaN, the comparison \<open>r == 0\<close> is
  false, and the quotient is NaN in both components.
\<close>

theorem gravitational_force_coincident_counterexample:
  "gravitational_force (Fin 1) (Fin 1) (PInf, Fin 0) (PInf, Fin 0) = (NaN, NaN)
   \<and> gravitational_force (Fin 1) (Fin 1) (PInf, Fin 0) (PInf, Fin 0) \<noteq> zeros2"
  by (simp add: gravitational_force_def Let_def vsub2_def norm2_def minus_f64_def
        zero_f64_def zeros2_def sdiv2_def smul2_def G_def f64_pow3)




text \<open>
  C5, as the code has it. The force on body 1 from body 2 is the negation of the force on
  body 2 from body 1 for all positions and for all masses for which \<open>G * m1 * m2\<close> and
  \<open>G * m2 * m1\<close>, both evaluated from the left, are the same float: equal masses, as the
  three of \<open>main\<close>, among them.
\<close>

theorem gravitational_force64_antisymmetric:
  assumes "mul64 (mul64 G64 m1) m2 = mul64 (mul64 G64 m2) m1"
  shows "gravitational_force64 m1 m2 r1 r2 = vneg2 (gravitational_force64 m2 m1 r2 r1)"
proof -
  have n: "norm2_64 (vsub2_64 r2 r1) = norm2_64 (vsub2_64 r1 r2)"
    using norm2_64_neg[of "vsub2_64 r1 r2"] vsub2_64_swap[of r2 r1] by simp
  have s: "vsub2_64 r2 r1 = vneg2 (vsub2_64 r1 r2)"
    by (rule vsub2_64_swap)
  show ?thesis
    unfolding gravitational_force64_def Let_def n assms
    by (simp add: vneg2_zeros2 s sdiv2_smul2_64_neg)
qed

theorem gravitational_force64_antisymmetric_witness:
  "mul64 (mul64 G64 (Fin 3)) (Fin 3) = mul64 (mul64 G64 (Fin 3)) (Fin 3)
   \<and> gravitational_force64 (Fin 3) (Fin 3) (Fin 0, Fin 0) (Fin 1, Fin 0) =
       vneg2 (gravitational_force64 (Fin 3) (Fin 3) (Fin 1, Fin 0) (Fin 0, Fin 0))"
  using gravitational_force64_antisymmetric [of "Fin 3" "Fin 3" "(Fin 0, Fin 0)" "(Fin 1, Fin 0)"]
  by simp

text \<open>
  C5, as the specification has it (all masses), fails: for the masses 3 and 7 the
  products \<open>(G * 3) * 7\<close> and \<open>(G * 7) * 3\<close> differ in the last bit, and so do the two
  forces between the positions \<open>(0, 0)\<close> and \<open>(1, 0)\<close>.
\<close>

theorem gravitational_force64_antisymmetric_counterexample:
  "(Fin 0, Fin 0) \<noteq> (Fin 1, Fin 0)
   \<and> gravitational_force64 (Fin 3) (Fin 7) (Fin 0, Fin 0) (Fin 1, Fin 0) =
       (Fin (of_int 6777736222197292 * 2 powi (- 82)), Fin 0)
   \<and> vneg2 (gravitational_force64 (Fin 7) (Fin 3) (Fin 1, Fin 0) (Fin 0, Fin 0)) =
       (Fin (of_int 6777736222197291 * 2 powi (- 82)), Fin 0)
   \<and> gravitational_force64 (Fin 3) (Fin 7) (Fin 0, Fin 0) (Fin 1, Fin 0) \<noteq>
       vneg2 (gravitational_force64 (Fin 7) (Fin 3) (Fin 1, Fin 0) (Fin 0, Fin 0))"
  unfolding force_3_7 force_7_3 by (simp add: vneg2_def)

section \<open>Derivative function and RK4 stepper: lemmas\<close>

lemma upt3: "[0..<3] = [0, 1, 2]"
  by (simp add: upt_rec)

lemma length12:
  assumes "length (s::'a list) = 12"
  obtains a0 a1 a2 a3 a4 a5 a6 a7 a8 a9 a10 a11
  where "s = [a0, a1, a2, a3, a4, a5, a6, a7, a8, a9, a10, a11]"
proof -
  have "s = map (\<lambda>i. s ! i) [0..<12]"
    using assms by (metis map_nth)
  also have "[0..<12] = [0,1,2,3,4,5,6,7,8,9,10,11]"
    by (simp add: upt_rec)
  finally show ?thesis using that by simp
qed

lemma length3:
  assumes "length (s::'a list) = 3"
  obtains a0 a1 a2 where "s = [a0, a1, a2]"
proof -
  have "s = map (\<lambda>i. s ! i) [0..<3]"
    using assms by (metis map_nth)
  then show ?thesis using that by (simp add: upt3)
qed

text \<open>The loops start each row at zero and add the two forces of the other bodies.\<close>

lemma spec_net_force_unfold:
  "spec_net_force masses positions 0 =
     vadd2 (gravitational_force (masses ! 0) (masses ! Suc 0) (positions ! 0) (positions ! Suc 0))
           (gravitational_force (masses ! 0) (masses ! Suc (Suc 0))
              (positions ! 0) (positions ! Suc (Suc 0)))"
  "spec_net_force masses positions (Suc 0) =
     vadd2 (gravitational_force (masses ! Suc 0) (masses ! 0) (positions ! Suc 0) (positions ! 0))
           (gravitational_force (masses ! Suc 0) (masses ! Suc (Suc 0))
              (positions ! Suc 0) (positions ! Suc (Suc 0)))"
  "spec_net_force masses positions (Suc (Suc 0)) =
     vadd2 (gravitational_force (masses ! Suc (Suc 0)) (masses ! 0)
              (positions ! Suc (Suc 0)) (positions ! 0))
           (gravitational_force (masses ! Suc (Suc 0)) (masses ! Suc 0)
              (positions ! Suc (Suc 0)) (positions ! Suc 0))"
  by (simp_all add: spec_net_force_def upt3 vadd2_zeros2_left numeral_2_eq_2)

lemma forces_loop_eq:
  "forces_loop masses positions = map (spec_net_force masses positions) [0..<3]"
  by (simp add: forces_loop_def forces_inner_def upt3 spec_net_force_unfold
        numeral_2_eq_2 numeral_3_eq_3 vadd2_zeros2_left)

lemma derivatives_eq:
  assumes "length state = 12" and "length masses = 3"
  shows "derivatives state masses =
           Inr (drop 6 state @
                flatten (map (\<lambda>i. sdiv2 (spec_net_force masses
                                  [(state ! 0, state ! 1), (state ! 2, state ! 3), (state ! 4, state ! 5)] i)
                                (masses ! i)) [0..<3]))"
proof -
  obtain a0 a1 a2 a3 a4 a5 a6 a7 a8 a9 a10 a11
    where s: "state = [a0, a1, a2, a3, a4, a5, a6, a7, a8, a9, a10, a11]"
    using assms(1) by (rule length12)
  obtain m0 m1 m2 where m: "masses = [m0, m1, m2]"
    using assms(2) by (rule length3)
  show ?thesis
    unfolding s m
    by (simp add: derivatives_def forces_loop_eq upt3 flatten_def numeral_2_eq_2)
qed

lemma derivatives_total:
  assumes "length state = 12" and "length masses = 3"
  obtains d where "derivatives state masses = Inr d" and "length d = 12"
proof -
  have "length (drop 6 state @
                flatten (map (\<lambda>i. sdiv2 (spec_net_force masses
                                  [(state ! 0, state ! 1), (state ! 2, state ! 3), (state ! 4, state ! 5)] i)
                                (masses ! i)) [0..<3])) = 12"
    using assms(1) by (simp add: flatten_def upt3)
  then show ?thesis
    using derivatives_eq[OF assms] that by blast
qed

lemma scalev_half: "scalev (Fin (1/2)) k = vdivs k (Fin 2)"
  by (simp add: scalev_def vdivs_def f64_half_mult)

lemma length_vadd: "length (vadd a b) = min (length a) (length b)"
  by (simp add: vadd_def)

lemma length_vscale: "length (vscale a c) = length a"
  by (simp add: vscale_def)

lemma length_vdivs: "length (vdivs a c) = length a"
  by (simp add: vdivs_def)

lemma length_scalev: "length (scalev c a) = length a"
  by (simp add: scalev_def)

lemma runge_kutta_step_eq:
  assumes "length s = 12" and "length masses = 3"
  shows "\<exists>d1 d2 d3 d4.
           derivatives s masses = Inr d1 \<and> length d1 = 12
         \<and> derivatives (vadd s (vdivs (vscale d1 dt) (Fin 2))) masses = Inr d2 \<and> length d2 = 12
         \<and> derivatives (vadd s (vdivs (vscale d2 dt) (Fin 2))) masses = Inr d3 \<and> length d3 = 12
         \<and> derivatives (vadd s (vscale d3 dt)) masses = Inr d4 \<and> length d4 = 12
         \<and> runge_kutta_step s masses dt =
             Inr (vadd s (vdivs (vadd (vadd (vadd (vscale d1 dt) (scalev (Fin 2) (vscale d2 dt)))
                                            (scalev (Fin 2) (vscale d3 dt)))
                                      (vscale d4 dt))
                                (Fin 6)))"
proof -
  obtain d1 where d1: "derivatives s masses = Inr d1" "length d1 = 12"
    using assms by (rule derivatives_total)
  have "length (vadd s (vdivs (vscale d1 dt) (Fin 2))) = 12"
    using assms(1) d1(2) by (simp add: length_vadd length_vdivs length_vscale)
  then obtain d2 where d2: "derivatives (vadd s (vdivs (vscale d1 dt) (Fin 2))) masses = Inr d2"
      "length d2 = 12"
    using assms(2) derivatives_total by blast
  have "length (vadd s (vdivs (vscale d2 dt) (Fin 2))) = 12"
    using assms(1) d2(2) by (simp add: length_vadd length_vdivs length_vscale)
  then obtain d3 where d3: "derivatives (vadd s (vdivs (vscale d2 dt) (Fin 2))) masses = Inr d3"
      "length d3 = 12"
    using assms(2) derivatives_total by blast
  have "length (vadd s (vscale d3 dt)) = 12"
    using assms(1) d3(2) by (simp add: length_vadd length_vscale)
  then obtain d4 where d4: "derivatives (vadd s (vscale d3 dt)) masses = Inr d4" "length d4 = 12"
    using assms(2) derivatives_total by blast
  have "runge_kutta_step s masses dt =
          Inr (vadd s (vdivs (vadd (vadd (vadd (vscale d1 dt) (scalev (Fin 2) (vscale d2 dt)))
                                         (scalev (Fin 2) (vscale d3 dt)))
                                   (vscale d4 dt))
                             (Fin 6)))"
    by (simp add: runge_kutta_step_def Let_def scalev_half d1(1) d2(1) d3(1) d4(1))
  then show ?thesis
    using d1 d2 d3 d4 by blast
qed

section \<open>Derivative function and RK4 stepper: the claims\<close>

text \<open>
  C2. For every state vector of length 12 and every three masses (positive or not),
  \<open>derivatives\<close> returns a vector of the same layout: its first six components are the
  velocity block of the input, and its last six are, body by body, the sum of the forces
  of the ordered pairs \<open>(i, j)\<close> with \<open>j\<close> different from \<open>i\<close>, divided by the mass of
  body \<open>i\<close>. No pair \<open>(i, i)\<close> is in the sum.
\<close>

theorem derivatives_velocity_and_acceleration:
  assumes "length state = 12" and "length masses = 3"
  shows "\<exists>d. derivatives state masses = Inr d \<and> length d = 12
             \<and> take 6 d = drop 6 state
             \<and> drop 6 d =
                 flatten (map (\<lambda>i. sdiv2 (spec_net_force masses
                                   [(state ! 0, state ! 1), (state ! 2, state ! 3),
                                    (state ! 4, state ! 5)] i)
                                 (masses ! i)) [0..<3])"
  using derivatives_eq[OF assms] assms(1) by (simp add: flatten_def upt3)

theorem derivatives_velocity_and_acceleration_witness:
  "length [Fin 0, Fin 0, Fin 1, Fin 0, Fin 2, Fin 0, Fin 1, Fin 2, Fin 3, Fin 4, Fin 5, Fin 6] = 12
   \<and> length [Fin 1, Fin 1, Fin 1] = 3
   \<and> derivatives [Fin 0, Fin 0, Fin 1, Fin 0, Fin 2, Fin 0, Fin 1, Fin 2, Fin 3, Fin 4, Fin 5, Fin 6]
        [Fin 1, Fin 1, Fin 1] =
      Inr [Fin 1, Fin 2, Fin 3, Fin 4, Fin 5, Fin 6,
           Fin (5 * (667430 / 10 ^ 16) / 4), Fin 0, Fin 0, Fin 0,
           Fin (- (5 * (667430 / 10 ^ 16) / 4)), Fin 0]"
proof -
  let ?s = "[Fin 0, Fin 0, Fin 1, Fin 0, Fin 2, Fin 0, Fin 1, Fin 2, Fin 3, Fin 4, Fin 5, Fin 6]"
  let ?m = "[Fin 1, Fin 1, Fin 1]"
  obtain d where d: "derivatives ?s ?m = Inr d" "take 6 d = drop 6 ?s"
    "drop 6 d = flatten (map (\<lambda>i. sdiv2 (spec_net_force ?m
                   [(?s ! 0, ?s ! 1), (?s ! 2, ?s ! 3), (?s ! 4, ?s ! 5)] i) (?m ! i)) [0..<3])"
    using derivatives_velocity_and_acceleration [of ?s ?m] by auto
  have "d = take 6 d @ drop 6 d"
    by simp
  also have "\<dots> = [Fin 1, Fin 2, Fin 3, Fin 4, Fin 5, Fin 6,
           Fin (5 * (667430 / 10 ^ 16) / 4), Fin 0, Fin 0, Fin 0,
           Fin (- (5 * (667430 / 10 ^ 16) / 4)), Fin 0]"
    unfolding d(2,3)
    by (simp add: upt3 flatten_def spec_net_force_unfold numeral_2_eq_2 gravitational_force_def
          Let_def vsub2_def norm2_def minus_f64_def zero_f64_def f64_pow3 sdiv2_def smul2_def
          vadd2_def G_def)
  finally show ?thesis
    using d(1) by simp
qed

text \<open>
  C1. For every state vector \<open>s\<close> of length 12, every three masses and every time step
  \<open>dt\<close>, the four evaluations of the derivative function return, and the RK4 stepper
  returns \<open>s + (k1 + 2 k2 + 2 k3 + k4) / 6\<close> with \<open>k1 = f(s) dt\<close>,
  \<open>k2 = f(s + k1 / 2) dt\<close>, \<open>k3 = f(s + k2 / 2) dt\<close> and \<open>k4 = f(s + k3) dt\<close>.
\<close>

theorem runge_kutta_step_formula:
  assumes "length s = 12" and "length masses = 3"
  shows "\<exists>f1 f2 f3 f4 k1 k2 k3 k4.
           derivatives s masses = Inr f1 \<and> k1 = vscale f1 dt
         \<and> derivatives (vadd s (vdivs k1 (Fin 2))) masses = Inr f2 \<and> k2 = vscale f2 dt
         \<and> derivatives (vadd s (vdivs k2 (Fin 2))) masses = Inr f3 \<and> k3 = vscale f3 dt
         \<and> derivatives (vadd s k3) masses = Inr f4 \<and> k4 = vscale f4 dt
         \<and> runge_kutta_step s masses dt =
             Inr (vadd s (vdivs (vadd (vadd (vadd k1 (scalev (Fin 2) k2)) (scalev (Fin 2) k3)) k4)
                                (Fin 6)))"
  using runge_kutta_step_eq[OF assms, of dt] by blast

theorem runge_kutta_step_formula_witness:
  "length (flatten initial_positions @ flatten initial_velocities) = 12
   \<and> length initial_masses = 3
   \<and> (\<exists>f1 f2 f3 f4 k1 k2 k3 k4.
        derivatives (flatten initial_positions @ flatten initial_velocities) initial_masses = Inr f1
      \<and> k1 = vscale f1 initial_dt
      \<and> derivatives (vadd (flatten initial_positions @ flatten initial_velocities)
                          (vdivs k1 (Fin 2))) initial_masses = Inr f2
      \<and> k2 = vscale f2 initial_dt
      \<and> derivatives (vadd (flatten initial_positions @ flatten initial_velocities)
                          (vdivs k2 (Fin 2))) initial_masses = Inr f3
      \<and> k3 = vscale f3 initial_dt
      \<and> derivatives (vadd (flatten initial_positions @ flatten initial_velocities) k3)
           initial_masses = Inr f4
      \<and> k4 = vscale f4 initial_dt
      \<and> runge_kutta_step (flatten initial_positions @ flatten initial_velocities)
           initial_masses initial_dt =
          Inr (vadd (flatten initial_positions @ flatten initial_velocities)
                 (vdivs (vadd (vadd (vadd k1 (scalev (Fin 2) k2)) (scalev (Fin 2) k3)) k4)
                        (Fin 6))))"
proof -
  have l: "length (flatten initial_positions @ flatten initial_velocities) = 12"
    by (simp add: flatten_def initial_positions_def initial_velocities_def)
  have m: "length initial_masses = 3"
    by (simp add: initial_masses_def)
  show ?thesis
    using l m runge_kutta_step_formula [OF l m, of initial_dt] by blast
qed

section \<open>Trajectory history and main loop: lemmas\<close>

lemma deque_append_length_le:
  "length d \<le> m \<Longrightarrow> length (deque_append m d x) \<le> m"
  by (auto simp: deque_append_def Let_def)

lemma deque_append_not_evicts:
  "length d \<le> m \<Longrightarrow> \<not> evicts m (deque_append m d x)"
  by (auto simp: evicts_def deque_append_def Let_def)

lemma history_frame_eq:
  "length d \<le> m \<Longrightarrow> history_frame m d x = deque_append m d x"
  by (simp add: history_frame_def Let_def deque_append_not_evicts)

lemma tl_drop_snoc:
  assumes "m \<le> length ps"
  shows "tl (drop (length ps - m) ps @ [p]) = drop (Suc (length ps - m)) (ps @ [p])"
proof (cases "m = 0")
  case True
  then show ?thesis by simp
next
  case False
  then have k: "length ps - m < length ps"
    using assms by simp
  then have "drop (length ps - m) ps \<noteq> []"
    by simp
  then have "tl (drop (length ps - m) ps @ [p]) = tl (drop (length ps - m) ps) @ [p]"
    by simp
  also have "\<dots> = drop (Suc (length ps - m)) ps @ [p]"
    by (simp add: tl_drop drop_Suc)
  also have "\<dots> = drop (Suc (length ps - m)) (ps @ [p])"
    using k by simp
  finally show ?thesis .
qed

lemma deque_append_drop:
  "deque_append m (drop (length ps - m) ps) p = drop (length (ps @ [p]) - m) (ps @ [p])"
proof (cases "m \<le> length ps")
  case True
  then have "Suc (length ps) - m = Suc (length ps - m)"
    by simp
  moreover have "length (drop (length ps - m) ps) = m"
    using True by simp
  ultimately show ?thesis
    using tl_drop_snoc[OF True, of p] by (simp add: deque_append_def Let_def)
next
  case False
  then show ?thesis
    by (simp add: deque_append_def Let_def)
qed

lemma foldl_deque_append:
  "foldl (deque_append m) [] ps = drop (length ps - m) ps"
proof (induction ps rule: rev_induct)
  case Nil
  then show ?case by simp
next
  case (snoc p ps)
  then show ?case
    using deque_append_drop[of m ps p] by simp
qed

lemma foldl_history_frame:
  "foldl (history_frame m) [] ps = drop (length ps - m) ps"
proof (induction ps rule: rev_induct)
  case Nil
  then show ?case by simp
next
  case (snoc p ps)
  have "length (drop (length ps - m) ps) \<le> m"
    by simp
  then show ?case
    using snoc deque_append_drop[of m ps p] by (simp add: history_frame_eq)
qed

lemma draw_loop_result:
  "draw_loop idx positions trajs W H S m = Inr r \<Longrightarrow>
     r = fold (\<lambda>i ts. if evicts m (ts ! i) then ts[i := tl (ts ! i)] else ts) idx trajs"
  by (induction idx arbitrary: trajs) (auto split: sum.splits if_splits)

lemma draw_simulation_history:
  assumes "draw_simulation positions trajs W H S m = Inr r" and "length trajs = 3"
  shows "r = map (\<lambda>i. if evicts m (trajs ! i) then tl (trajs ! i) else trajs ! i) [0..<3]"
proof -
  obtain t0 t1 t2 where t: "trajs = [t0, t1, t2]"
    using assms(2) by (metis (no_types) length_0_conv length_Suc_conv numeral_3_eq_3)
  show ?thesis
    using draw_loop_result[OF assms(1)[unfolded draw_simulation_def]]
    by (simp add: t upt3 numeral_2_eq_2)
qed

lemma length_append_positions: "length (append_positions m trajs positions) = 3"
  by (simp add: append_positions_def)

lemma nth_append_positions:
  "i < 3 \<Longrightarrow> append_positions m trajs positions ! i = deque_append m (trajs ! i) (positions ! i)"
  by (simp add: append_positions_def)

lemma tick_history:
  assumes "tick masses dt W H S m w = Inr w'"
  shows "\<exists>new_state positions.
           update_simulation (sim_state w) masses dt = Inr (new_state, positions)
         \<and> sim_state w' = new_state
         \<and> earth_trajectories w' =
             map (\<lambda>i. history_frame m (earth_trajectories w ! i) (positions ! i)) [0..<3]"
proof -
  obtain ns ps where u: "update_simulation (sim_state w) masses dt = Inr (ns, ps)"
    using assms by (auto simp: tick_def split: sum.splits)
  let ?t = "append_positions m (earth_trajectories w) ps"
  obtain r where r: "draw_simulation ps ?t W H S m = Inr r"
    and w': "w' = \<lparr>sim_state = ns, earth_trajectories = r\<rparr>"
    using assms u by (auto simp: tick_def Let_def split: sum.splits)
  have "r = map (\<lambda>i. if evicts m (?t ! i) then tl (?t ! i) else ?t ! i) [0..<3]"
    using r by (rule draw_simulation_history) (rule length_append_positions)
  also have "\<dots> = map (\<lambda>i. history_frame m (earth_trajectories w ! i) (ps ! i)) [0..<3]"
    by (simp add: upt3 history_frame_def Let_def append_positions_def)
  finally show ?thesis
    using u w' by simp
qed

lemma main_world_eq:
  "main_world = Inr \<lparr>sim_state = flatten initial_positions @ flatten initial_velocities,
                      earth_trajectories = replicate 3 []\<rparr>"
  by (simp add: main_world_def initialize_simulation_def Let_def)

lemma append_positions_bounded:
  assumes "length trajs = 3" and "\<forall>t \<in> set trajs. length t \<le> m"
  shows "\<forall>t \<in> set (append_positions m trajs positions). length t \<le> m \<and> \<not> evicts m t"
proof -
  obtain t0 t1 t2 where t: "trajs = [t0, t1, t2]"
    using assms(1) by (metis (no_types) length_0_conv length_Suc_conv numeral_3_eq_3)
  show ?thesis
    using assms(2) unfolding t
    by (simp add: append_positions_def upt3 numeral_2_eq_2 deque_append_length_le
          deque_append_not_evicts)
qed

lemma draw_simulation_unchanged:
  assumes "draw_simulation positions trajs W H S m = Inr r" and "length trajs = 3"
    and "\<forall>t \<in> set trajs. \<not> evicts m t"
  shows "r = trajs"
proof -
  obtain t0 t1 t2 where t: "trajs = [t0, t1, t2]"
    using assms(2) by (metis (no_types) length_0_conv length_Suc_conv numeral_3_eq_3)
  show ?thesis
    using draw_simulation_history[OF assms(1,2)] assms(3) unfolding t
    by (simp add: upt3 numeral_2_eq_2)
qed

lemma tick_preserves_bound:
  assumes "tick masses dt W H S m w = Inr w'"
    and "length (earth_trajectories w) = 3" and "\<forall>t \<in> set (earth_trajectories w). length t \<le> m"
  shows "length (earth_trajectories w') = 3 \<and> (\<forall>t \<in> set (earth_trajectories w'). length t \<le> m)"
proof -
  obtain ns ps where u: "update_simulation (sim_state w) masses dt = Inr (ns, ps)"
    using assms(1) by (auto simp: tick_def split: sum.splits)
  let ?t = "append_positions m (earth_trajectories w) ps"
  obtain r where r: "draw_simulation ps ?t W H S m = Inr r"
    and w': "w' = \<lparr>sim_state = ns, earth_trajectories = r\<rparr>"
    using assms(1) u by (auto simp: tick_def Let_def split: sum.splits)
  have b: "\<forall>t \<in> set ?t. length t \<le> m \<and> \<not> evicts m t"
    using assms(2,3) by (rule append_positions_bounded)
  then have "r = ?t"
    using draw_simulation_unchanged[OF r length_append_positions] by blast
  then show ?thesis
    using b w' by (simp add: length_append_positions)
qed

lemma main_reach_bound:
  "main_reach m w \<Longrightarrow>
     length (earth_trajectories w) = 3 \<and> (\<forall>t \<in> set (earth_trajectories w). length t \<le> m)"
proof (induction rule: main_reach.induct)
  case (start w)
  then show ?case
    by (auto simp: main_world_eq)
next
  case (step w w')
  then show ?case
    using tick_preserves_bound[of initial_masses initial_dt 800 800 "Fin 2000000000" m w w']
    by (simp add: main_tick_def)
qed

section \<open>Finite values: the main loop goes on\<close>

text \<open>
  With exact arithmetic a finite state stays finite under finite, nonzero masses and a
  finite time step, and then no conversion to screen coordinates raises: from every state
  that it reaches, the main loop makes its next iteration.
\<close>

lemma is_finite_iff: "is_finite a \<longleftrightarrow> (\<exists>x. a = Fin x)"
  by (cases a) simp_all

lemma is_finite_add: "is_finite a \<Longrightarrow> is_finite b \<Longrightarrow> is_finite (a + b)"
  by (auto simp: is_finite_iff)

lemma is_finite_sub: "is_finite a \<Longrightarrow> is_finite b \<Longrightarrow> is_finite (a - b)"
  by (auto simp: is_finite_iff minus_f64_def)

lemma is_finite_mult: "is_finite a \<Longrightarrow> is_finite b \<Longrightarrow> is_finite (a * b)"
  by (auto simp: is_finite_iff)

lemma is_finite_div: "is_finite a \<Longrightarrow> is_finite b \<Longrightarrow> b \<noteq> Fin 0 \<Longrightarrow> is_finite (a / b)"
  by (auto simp: is_finite_iff)

lemma is_finite_norm2: "finite2 v \<Longrightarrow> is_finite (norm2 v)"
  by (cases v) (auto simp: finite2_def is_finite_iff norm2_def not_less)

lemma f64_pow3_nonzero: "is_finite a \<Longrightarrow> a \<noteq> Fin 0 \<Longrightarrow> is_finite (a ^ 3) \<and> a ^ 3 \<noteq> Fin 0"
  by (auto simp: is_finite_iff f64_pow3)

lemma finite2_vsub2: "finite2 a \<Longrightarrow> finite2 b \<Longrightarrow> finite2 (vsub2 a b)"
  by (simp add: finite2_def vsub2_def is_finite_sub)

lemma finite2_vadd2: "finite2 a \<Longrightarrow> finite2 b \<Longrightarrow> finite2 (vadd2 a b)"
  by (simp add: finite2_def vadd2_def is_finite_add)

lemma finite2_sdiv2: "finite2 a \<Longrightarrow> is_finite c \<Longrightarrow> c \<noteq> Fin 0 \<Longrightarrow> finite2 (sdiv2 a c)"
  by (simp add: finite2_def sdiv2_def is_finite_div)

lemma finite2_smul2: "is_finite c \<Longrightarrow> finite2 a \<Longrightarrow> finite2 (smul2 c a)"
  by (simp add: finite2_def smul2_def is_finite_mult)

lemma finite2_zeros2: "finite2 zeros2"
  by (simp add: finite2_def zeros2_def)

lemma finite2_gravitational_force:
  assumes "is_finite m1" and "is_finite m2" and "finite2 r1" and "finite2 r2"
  shows "finite2 (gravitational_force m1 m2 r1 r2)"
proof (cases "norm2 (vsub2 r2 r1) = 0")
  case True
  then show ?thesis
    by (simp add: gravitational_force_def finite2_zeros2)
next
  case False
  have d: "finite2 (vsub2 r2 r1)"
    using assms(3,4) by (simp add: finite2_vsub2)
  then have "is_finite (norm2 (vsub2 r2 r1))"
    by (rule is_finite_norm2)
  then have p: "is_finite (norm2 (vsub2 r2 r1) ^ 3)" "norm2 (vsub2 r2 r1) ^ 3 \<noteq> Fin 0"
    using False f64_pow3_nonzero by (simp_all add: zero_f64_def)
  have "is_finite (G * m1 * m2)"
    using assms(1,2) by (simp add: is_finite_mult G_def)
  then show ?thesis
    using False d p by (simp add: gravitational_force_def finite2_sdiv2 finite2_smul2)
qed

lemma finite2_spec_net_force:
  assumes "\<forall>m \<in> set masses. is_finite m" and "\<forall>p \<in> set positions. finite2 p"
    and "length masses = 3" and "length positions = 3" and "i < 3"
  shows "finite2 (spec_net_force masses positions i)"
proof -
  have f: "\<And>a b. a < 3 \<Longrightarrow> b < 3 \<Longrightarrow>
      finite2 (gravitational_force (masses ! a) (masses ! b) (positions ! a) (positions ! b))"
    using assms(1-4) by (simp add: finite2_gravitational_force)
  have "i = 0 \<or> i = Suc 0 \<or> i = Suc (Suc 0)"
    using assms(5) by arith
  then show ?thesis
    using f by (auto simp: spec_net_force_unfold finite2_vadd2)
qed

lemma all_finite_flatten: "all_finite (flatten vs) \<longleftrightarrow> (\<forall>v \<in> set vs. finite2 v)"
  by (auto simp: all_finite_def list_all_iff flatten_def finite2_def)

lemma all_finite_append: "all_finite (a @ b) \<longleftrightarrow> all_finite a \<and> all_finite b"
  by (auto simp: all_finite_def list_all_iff)

lemma all_finite_drop: "all_finite a \<Longrightarrow> all_finite (drop n a)"
  by (auto simp: all_finite_def list_all_iff dest: in_set_dropD)

lemma all_finite_take: "all_finite a \<Longrightarrow> all_finite (take n a)"
  by (auto simp: all_finite_def list_all_iff dest: in_set_takeD)

lemma all_finite_nth: "all_finite a \<Longrightarrow> i < length a \<Longrightarrow> is_finite (a ! i)"
  by (simp add: all_finite_def list_all_iff)

lemma derivatives_finite:
  assumes "length state = 12" and "length masses = 3"
    and "all_finite state" and "\<forall>m \<in> set masses. finite_nonzero m"
  shows "\<exists>d. derivatives state masses = Inr d \<and> length d = 12 \<and> all_finite d"
proof -
  let ?pos = "[(state ! 0, state ! 1), (state ! 2, state ! 3), (state ! 4, state ! 5)]"
  have pos: "\<forall>p \<in> set ?pos. finite2 p"
    using assms(1,3) by (simp add: finite2_def all_finite_nth)
  have mf: "\<forall>m \<in> set masses. is_finite m"
    using assms(4) by (simp add: finite_nonzero_def)
  have acc: "finite2 (sdiv2 (spec_net_force masses ?pos i) (masses ! i))" if "i < 3" for i
  proof -
    have "finite_nonzero (masses ! i)"
      using assms(2,4) that by simp
    then show ?thesis
      using finite2_spec_net_force[OF mf pos assms(2) _ that]
      by (simp add: finite2_sdiv2 finite_nonzero_def)
  qed
  have "all_finite (drop 6 state @
          flatten (map (\<lambda>i. sdiv2 (spec_net_force masses ?pos i) (masses ! i)) [0..<3]))"
    using assms(3) acc by (simp add: all_finite_append all_finite_drop all_finite_flatten)
  moreover have "length (drop 6 state @
          flatten (map (\<lambda>i. sdiv2 (spec_net_force masses ?pos i) (masses ! i)) [0..<3])) = 12"
    using assms(1) by (simp add: flatten_def upt3)
  ultimately show ?thesis
    using derivatives_eq[OF assms(1,2)] by simp
qed

lemma all_finite_vadd: "all_finite a \<Longrightarrow> all_finite b \<Longrightarrow> all_finite (vadd a b)"
proof -
  assume a: "all_finite a" and b: "all_finite b"
  have "is_finite (x + y)" if "(x, y) \<in> set (zip a b)" for x y
  proof -
    have "x \<in> set a" and "y \<in> set b"
      using that by (auto dest: set_zip_leftD set_zip_rightD)
    then show ?thesis
      using a b by (simp add: all_finite_def list_all_iff is_finite_add)
  qed
  then show ?thesis
    by (auto simp: all_finite_def list_all_iff vadd_def)
qed

lemma all_finite_vscale: "all_finite a \<Longrightarrow> is_finite c \<Longrightarrow> all_finite (vscale a c)"
  by (auto simp: all_finite_def list_all_iff vscale_def is_finite_mult)

lemma all_finite_scalev: "is_finite c \<Longrightarrow> all_finite a \<Longrightarrow> all_finite (scalev c a)"
  by (auto simp: all_finite_def list_all_iff scalev_def is_finite_mult)

lemma all_finite_vdivs: "all_finite a \<Longrightarrow> is_finite c \<Longrightarrow> c \<noteq> Fin 0 \<Longrightarrow> all_finite (vdivs a c)"
  by (auto simp: all_finite_def list_all_iff vdivs_def is_finite_div)

lemma runge_kutta_step_finite:
  assumes "length s = 12" and "length masses = 3"
    and "all_finite s" and "\<forall>m \<in> set masses. finite_nonzero m" and "is_finite dt"
  shows "\<exists>n. runge_kutta_step s masses dt = Inr n \<and> length n = 12 \<and> all_finite n"
proof -
  have half: "is_finite (Fin (1/2))" and two: "is_finite (Fin 2)"
    by simp_all
  obtain d1 where d1: "derivatives s masses = Inr d1" "length d1 = 12" "all_finite d1"
    using derivatives_finite[OF assms(1-4)] by blast
  define k1 where "k1 = vscale d1 dt"
  have k1: "length k1 = 12" "all_finite k1"
    using d1 assms(5) by (simp_all add: k1_def length_vscale all_finite_vscale)
  define s2 where "s2 = vadd s (scalev (Fin (1/2)) k1)"
  have s2: "length s2 = 12" "all_finite s2"
    using assms(1,3) k1 half
    by (simp_all add: s2_def length_vadd length_scalev all_finite_vadd all_finite_scalev)
  obtain d2 where d2: "derivatives s2 masses = Inr d2" "length d2 = 12" "all_finite d2"
    using derivatives_finite[OF s2(1) assms(2) s2(2) assms(4)] by blast
  define k2 where "k2 = vscale d2 dt"
  have k2: "length k2 = 12" "all_finite k2"
    using d2 assms(5) by (simp_all add: k2_def length_vscale all_finite_vscale)
  define s3 where "s3 = vadd s (scalev (Fin (1/2)) k2)"
  have s3: "length s3 = 12" "all_finite s3"
    using assms(1,3) k2 half
    by (simp_all add: s3_def length_vadd length_scalev all_finite_vadd all_finite_scalev)
  obtain d3 where d3: "derivatives s3 masses = Inr d3" "length d3 = 12" "all_finite d3"
    using derivatives_finite[OF s3(1) assms(2) s3(2) assms(4)] by blast
  define k3 where "k3 = vscale d3 dt"
  have k3: "length k3 = 12" "all_finite k3"
    using d3 assms(5) by (simp_all add: k3_def length_vscale all_finite_vscale)
  define s4 where "s4 = vadd s k3"
  have s4: "length s4 = 12" "all_finite s4"
    using assms(1,3) k3 by (simp_all add: s4_def length_vadd all_finite_vadd)
  obtain d4 where d4: "derivatives s4 masses = Inr d4" "length d4 = 12" "all_finite d4"
    using derivatives_finite[OF s4(1) assms(2) s4(2) assms(4)] by blast
  define k4 where "k4 = vscale d4 dt"
  have k4: "length k4 = 12" "all_finite k4"
    using d4 assms(5) by (simp_all add: k4_def length_vscale all_finite_vscale)
  define n where
    "n = vadd s (vdivs (vadd (vadd (vadd k1 (scalev (Fin 2) k2)) (scalev (Fin 2) k3)) k4) (Fin 6))"
  have "runge_kutta_step s masses dt = Inr n"
    using d1(1) d2(1) d3(1) d4(1)
    by (simp add: runge_kutta_step_def Let_def n_def k1_def k2_def k3_def k4_def s2_def s3_def
          s4_def)
  moreover have "length n = 12"
    using assms(1) k1(1) k2(1) k3(1) k4(1)
    by (simp add: n_def length_vadd length_vdivs length_scalev)
  moreover have "all_finite n"
    using assms(3) k1(2) k2(2) k3(2) k4(2) two
    by (simp add: n_def all_finite_vadd all_finite_vdivs all_finite_scalev)
  ultimately show ?thesis
    by blast
qed

lemma update_simulation_total:
  assumes "length s = 12" and "length masses = 3"
  shows "\<exists>n. runge_kutta_step s masses dt = Inr n \<and> length n = 12
           \<and> update_simulation s masses dt =
               Inr (n, [(n ! 0, n ! 1), (n ! 2, n ! 3), (n ! 4, n ! 5)])"
proof -
  obtain n where n: "runge_kutta_step s masses dt = Inr n" "length n = 12"
    using runge_kutta_step_eq[OF assms, of dt]
    by (auto simp: length_vadd length_vdivs length_scalev length_vscale assms(1))
  obtain a0 a1 a2 a3 a4 a5 a6 a7 a8 a9 a10 a11
    where l: "n = [a0, a1, a2, a3, a4, a5, a6, a7, a8, a9, a10, a11]"
    using n(2) by (rule length12)
  have "update_simulation s masses dt = Inr (n, [(n ! 0, n ! 1), (n ! 2, n ! 3), (n ! 4, n ! 5)])"
    by (simp add: update_simulation_def n(1)) (simp add: l)
  then show ?thesis
    using n by blast
qed

lemma to_int_total: "is_finite a \<Longrightarrow> \<exists>n. to_int a = Inr n"
  by (auto simp: is_finite_iff)

lemma to_screen_coords_total:
  assumes "finite2 p" and "finite_nonzero SCALE"
  shows "\<exists>xy. to_screen_coords p W H SCALE = Inr xy"
proof -
  have "is_finite (fst p / SCALE)" and "is_finite (snd p / SCALE)"
    using assms by (simp_all add: finite2_def finite_nonzero_def is_finite_div)
  then obtain a b where "to_int (fst p / SCALE) = Inr a" and "to_int (snd p / SCALE) = Inr b"
    using to_int_total by blast
  then show ?thesis
    by (simp add: to_screen_coords_def)
qed

lemma screen_points_total:
  assumes "finite_nonzero SCALE"
  shows "\<forall>p \<in> set ps. finite2 p \<Longrightarrow> \<exists>xys. screen_points ps W H SCALE = Inr xys"
proof (induction ps)
  case Nil
  then show ?case by simp
next
  case (Cons p ps)
  have "finite2 p"
    using Cons.prems by simp
  then obtain xy where "to_screen_coords p W H SCALE = Inr xy"
    using to_screen_coords_total[OF _ assms] by blast
  moreover have "\<forall>q \<in> set ps. finite2 q"
    using Cons.prems by simp
  then obtain xys where "screen_points ps W H SCALE = Inr xys"
    using Cons.IH by blast
  ultimately show ?case
    by simp
qed

lemma points_finite_update_tl:
  assumes "points_finite trajs" and "i < length trajs"
  shows "points_finite (trajs[i := tl (trajs ! i)])"
proof -
  have "\<forall>p \<in> set (tl (trajs ! i)). finite2 p"
    using assms by (cases "trajs ! i") (auto simp: points_finite_def list_all_iff dest: nth_mem)
  then show ?thesis
    using assms(1) set_update_subset_insert[of trajs i "tl (trajs ! i)"]
    by (auto simp: points_finite_def list_all_iff)
qed

lemma draw_loop_total:
  assumes "finite_nonzero SCALE" and "\<forall>p \<in> set positions. finite2 p"
  shows "\<forall>i \<in> set idx. i < length positions \<and> i < length trajs \<Longrightarrow> points_finite trajs \<Longrightarrow>
         \<exists>r. draw_loop idx positions trajs W H SCALE m = Inr r"
proof (induction idx arbitrary: trajs)
  case Nil
  then show ?case by simp
next
  case (Cons i idx)
  have i: "i < length positions" "i < length trajs"
    using Cons.prems(1) by simp_all
  have "finite2 (positions ! i)"
    using assms(2) i(1) by simp
  then obtain xy where xy: "to_screen_coords (positions ! i) W H SCALE = Inr xy"
    using to_screen_coords_total[OF _ assms(1)] by blast
  have "\<forall>p \<in> set (trajs ! i). finite2 p"
    using Cons.prems(2) i(2) by (auto simp: points_finite_def list_all_iff)
  then obtain xys where xys: "screen_points (trajs ! i) W H SCALE = Inr xys"
    using screen_points_total[OF assms(1)] by blast
  let ?t = "if evicts m (trajs ! i) then trajs[i := tl (trajs ! i)] else trajs"
  have "points_finite ?t"
    using Cons.prems(2) i(2) by (simp add: points_finite_update_tl)
  moreover have "\<forall>j \<in> set idx. j < length positions \<and> j < length ?t"
    using Cons.prems(1) by simp
  ultimately obtain r where "draw_loop idx positions ?t W H SCALE m = Inr r"
    using Cons.IH by blast
  then show ?case
    using xy xys by simp
qed

lemma draw_simulation_total:
  assumes "finite_nonzero SCALE" and "\<forall>p \<in> set positions. finite2 p" and "length positions = 3"
    and "length trajs = 3" and "points_finite trajs"
  shows "\<exists>r. draw_simulation positions trajs W H SCALE m = Inr r"
  unfolding draw_simulation_def
  using draw_loop_total[OF assms(1,2), of "[0..<3]" trajs] assms(3,4,5) by simp

lemma points_finite_append_positions:
  assumes "points_finite trajs" and "length trajs = 3"
    and "\<forall>p \<in> set positions. finite2 p" and "length positions = 3"
  shows "points_finite (append_positions m trajs positions)"
proof -
  have "\<forall>p \<in> set (deque_append m (trajs ! i) (positions ! i)). finite2 p" if "i < 3" for i
  proof -
    have "\<forall>p \<in> set (trajs ! i @ [positions ! i]). finite2 p"
      using assms that by (auto simp: points_finite_def list_all_iff)
    then show ?thesis
      by (cases "trajs ! i") (auto simp: deque_append_def Let_def)
  qed
  then show ?thesis
    by (auto simp: points_finite_def list_all_iff append_positions_def)
qed

lemma tick_progress:
  assumes "world_finite w" and "length masses = 3" and "\<forall>m \<in> set masses. finite_nonzero m"
    and "is_finite dt" and "finite_nonzero SCALE"
    and "\<forall>t \<in> set (earth_trajectories w). length t \<le> m"
  shows "\<exists>w'. tick masses dt W H SCALE m w = Inr w' \<and> world_finite w'"
proof -
  have s: "length (sim_state w) = 12" "all_finite (sim_state w)"
    and t: "length (earth_trajectories w) = 3" "points_finite (earth_trajectories w)"
    using assms(1) by (simp_all add: world_finite_def)
  obtain n where n: "runge_kutta_step (sim_state w) masses dt = Inr n" "length n = 12"
    "all_finite n"
    using runge_kutta_step_finite[OF s(1) assms(2) s(2) assms(3,4)] by blast
  let ?ps = "[(n ! 0, n ! 1), (n ! 2, n ! 3), (n ! 4, n ! 5)]"
  have u: "update_simulation (sim_state w) masses dt = Inr (n, ?ps)"
    using update_simulation_total[OF s(1) assms(2), of dt] n(1) by simp
  have ps: "\<forall>p \<in> set ?ps. finite2 p"
    using n(2,3) by (simp add: finite2_def all_finite_nth)
  let ?t = "append_positions m (earth_trajectories w) ?ps"
  have pf: "points_finite ?t"
    using t(2,1) ps by (rule points_finite_append_positions) simp
  have l3: "length ?ps = 3"
    by simp
  obtain r where r: "draw_simulation ?ps ?t W H SCALE m = Inr r"
    using draw_simulation_total[OF assms(5) ps l3 length_append_positions pf] by blast
  have "\<forall>x \<in> set ?t. \<not> evicts m x"
    using append_positions_bounded[OF t(1) assms(6)] by blast
  then have "r = ?t"
    using draw_simulation_unchanged[OF r length_append_positions] by blast
  then have "tick masses dt W H SCALE m w = Inr \<lparr>sim_state = n, earth_trajectories = ?t\<rparr>"
    using u r by (simp add: tick_def Let_def)
  moreover have "world_finite \<lparr>sim_state = n, earth_trajectories = ?t\<rparr>"
    using n(2,3) pf by (simp add: world_finite_def length_append_positions)
  ultimately show ?thesis
    by blast
qed

lemma initial_facts:
  "length initial_masses = 3" "\<forall>m \<in> set initial_masses. finite_nonzero m"
  "is_finite initial_dt" "finite_nonzero (Fin 2000000000)"
  by (simp_all add: initial_masses_def initial_dt_def finite_nonzero_def)

lemma tick_world_finite:
  assumes "tick masses dt W H SCALE m w = Inr w'"
    and "world_finite w" and "length masses = 3" and "\<forall>m \<in> set masses. finite_nonzero m"
    and "is_finite dt" and "finite_nonzero SCALE"
    and "\<forall>t \<in> set (earth_trajectories w). length t \<le> m"
  shows "world_finite w'"
  using tick_progress[OF assms(2-7), of W H] assms(1) by auto

lemma main_reach_finite: "main_reach m w \<Longrightarrow> world_finite w"
proof (induction rule: main_reach.induct)
  case (start w)
  then show ?case
    by (auto simp: main_world_eq world_finite_def all_finite_def list_all_iff points_finite_def list_all_iff flatten_def
          initial_positions_def initial_velocities_def)
next
  case (step w w')
  have "\<forall>t \<in> set (earth_trajectories w). length t \<le> m"
    using main_reach_bound[OF step.hyps(1)] by simp
  then show ?case
    using tick_world_finite[OF step.hyps(2)[unfolded main_tick_def] step.IH initial_facts]
    by simp
qed

lemma main_tick_total:
  assumes "main_reach m w"
  shows "\<exists>w'. main_tick m w = Inr w' \<and> main_reach m w'"
proof -
  have "\<forall>t \<in> set (earth_trajectories w). length t \<le> m"
    using main_reach_bound[OF assms] by simp
  then obtain w' where "main_tick m w = Inr w'"
    using tick_progress[OF main_reach_finite[OF assms] initial_facts, of m 800 800]
    by (auto simp: main_tick_def)
  then show ?thesis
    using assms main_reach.step by blast
qed

section \<open>Trajectory history and main loop: the claims\<close>

text \<open>
  C7. After \<open>max_orbit_length + k\<close> positions have been appended to the deque of one
  body, the deque holds exactly \<open>max_orbit_length\<close> positions: the last ones appended,
  in the order of their appends. This holds for the appends alone and for the appends
  each followed by the guarded \<open>popleft\<close> of the drawing routine, which is what the main
  loop does to a deque (lemma \<open>tick_history\<close>). It holds for \<open>k = 0\<close> as well.
\<close>

theorem trajectory_keeps_last:
  assumes "length ps = max_orbit_length + k"
  shows "foldl (deque_append max_orbit_length) [] ps = drop k ps
       \<and> foldl (history_frame max_orbit_length) [] ps = drop k ps
       \<and> length (drop k ps) = max_orbit_length"
  using assms by (simp add: foldl_deque_append foldl_history_frame)

theorem trajectory_keeps_last_witness:
  "length [(Fin 1, Fin 1), (Fin 2, Fin 2), (Fin 3, Fin 3), (Fin 4, Fin 4)] = 2 + 2
   \<and> foldl (deque_append 2) [] [(Fin 1, Fin 1), (Fin 2, Fin 2), (Fin 3, Fin 3), (Fin 4, Fin 4)]
       = [(Fin 3, Fin 3), (Fin 4, Fin 4)]
   \<and> foldl (history_frame 2) [] [(Fin 1, Fin 1), (Fin 2, Fin 2), (Fin 3, Fin 3), (Fin 4, Fin 4)]
       = [(Fin 3, Fin 3), (Fin 4, Fin 4)]"
  using trajectory_keeps_last
    [of "[(Fin 1, Fin 1), (Fin 2, Fin 2), (Fin 3, Fin 3), (Fin 4, Fin 4)]" 2 2]
  by simp

text \<open>
  C10. Every deque is created with \<open>maxlen = max_orbit_length\<close>, so no sequence of
  appends makes it longer than \<open>max_orbit_length\<close>. In every state that the main loop
  reaches, the three deques are within the bound, and after the appends of the next
  iteration, whatever the positions, the guard of the \<open>popleft\<close> is false for each of
  them: the drawing routine returns the deques as it got them.
\<close>

theorem popleft_never_executed:
  assumes "main_reach max_orbit_length w"
  shows "(\<forall>xs. length (foldl (deque_append max_orbit_length) ([]::vec2 list) xs) \<le> max_orbit_length)
       \<and> (\<forall>t \<in> set (earth_trajectories w). length t \<le> max_orbit_length)
       \<and> (\<forall>positions.
            \<forall>t \<in> set (append_positions max_orbit_length (earth_trajectories w) positions).
              length t \<le> max_orbit_length \<and> \<not> evicts max_orbit_length t)
       \<and> (\<forall>positions r.
            draw_simulation positions
              (append_positions max_orbit_length (earth_trajectories w) positions)
              800 800 (Fin 2000000000) max_orbit_length = Inr r
            \<longrightarrow> r = append_positions max_orbit_length (earth_trajectories w) positions)"
proof -
  have b: "length (earth_trajectories w) = 3"
    "\<forall>t \<in> set (earth_trajectories w). length t \<le> max_orbit_length"
    using main_reach_bound[OF assms] by simp_all
  have a: "\<forall>t \<in> set (append_positions max_orbit_length (earth_trajectories w) positions).
              length t \<le> max_orbit_length \<and> \<not> evicts max_orbit_length t" for positions
    using b by (rule append_positions_bounded)
  have "r = append_positions max_orbit_length (earth_trajectories w) positions"
    if "draw_simulation positions
          (append_positions max_orbit_length (earth_trajectories w) positions)
          800 800 (Fin 2000000000) max_orbit_length = Inr r" for positions r
    using draw_simulation_unchanged[OF that length_append_positions] a by blast
  moreover have "length (foldl (deque_append max_orbit_length) ([]::vec2 list) xs)
      \<le> max_orbit_length" for xs
    by (simp add: foldl_deque_append)
  ultimately show ?thesis
    using a b(2) by blast
qed

theorem popleft_never_executed_witness:
  "\<exists>w0 w1. main_world = Inr w0 \<and> main_tick 1000 w0 = Inr w1 \<and> main_reach 1000 w1
     \<and> (\<forall>t \<in> set (earth_trajectories w1). length t \<le> 1000)
     \<and> (\<forall>t \<in> set (append_positions 1000 (earth_trajectories w1) initial_positions).
           \<not> evicts 1000 t)"
proof -
  obtain w0 where w0: "main_world = Inr w0"
    using main_world_eq by blast
  then have "main_reach 1000 w0"
    by (rule main_reach.start)
  then obtain w1 where w1: "main_tick 1000 w0 = Inr w1" "main_reach 1000 w1"
    using main_tick_total by blast
  show ?thesis
    using w0 w1 popleft_never_executed [OF w1(2)] by blast
qed

section \<open>Step: the claims\<close>

text \<open>
  C8, as the code has it. \<open>update_simulation\<close> has no check for NaN or infinity and no
  failure of its own: for every state vector of length 12, every three masses and every
  time step it returns the state that \<open>runge_kutta_step\<close> produced, unchanged, with the
  three positions read from it.
\<close>

theorem update_simulation_unchecked:
  assumes "length state = 12" and "length masses = 3"
  shows "\<exists>new_state.
           runge_kutta_step state masses dt = Inr new_state \<and> length new_state = 12
         \<and> update_simulation state masses dt =
             Inr (new_state, [(new_state ! 0, new_state ! 1), (new_state ! 2, new_state ! 3),
                              (new_state ! 4, new_state ! 5)])"
  using update_simulation_total[OF assms] by blast

text \<open>
  C8, as the specification has it, fails: on a state with an infinite coordinate the step
  produces NaN in all twelve components and returns them as its result.
\<close>

theorem update_simulation_unchecked_counterexample:
  "update_simulation
     [PInf, Fin 0, Fin 0, Fin 0, Fin 0, Fin 0, Fin 0, Fin 0, Fin 0, Fin 0, Fin 0, Fin 0]
     [Fin 1, Fin 1, Fin 1] (Fin 1) =
   Inr ([NaN, NaN, NaN, NaN, NaN, NaN, NaN, NaN, NaN, NaN, NaN, NaN],
        [(NaN, NaN), (NaN, NaN), (NaN, NaN)])
   \<and> \<not> all_finite [NaN, NaN, NaN, NaN, NaN, NaN, NaN, NaN, NaN, NaN, NaN, NaN]"
  by (simp add: update_simulation_def runge_kutta_step_def vadd_def vscale_def scalev_def vdivs_def
        derivatives_def forces_loop_eq upt3 flatten_def spec_net_force_unfold numeral_2_eq_2
        gravitational_force_def Let_def vsub2_def norm2_def minus_f64_def zero_f64_def f64_pow3
        sdiv2_def smul2_def vadd2_def G_def signed_inf_def zeros2_def all_finite_def list_all_iff)

theorem update_simulation_unchecked_witness:
  "length [PInf, Fin 0, Fin 0, Fin 0, Fin 0, Fin 0, Fin 0, Fin 0, Fin 0, Fin 0, Fin 0, Fin 0] = 12
   \<and> length [Fin 1, Fin 1, Fin 1] = 3
   \<and> (\<exists>new_state.
         runge_kutta_step
           [PInf, Fin 0, Fin 0, Fin 0, Fin 0, Fin 0, Fin 0, Fin 0, Fin 0, Fin 0, Fin 0, Fin 0]
           [Fin 1, Fin 1, Fin 1] (Fin 1) = Inr new_state
       \<and> update_simulation
           [PInf, Fin 0, Fin 0, Fin 0, Fin 0, Fin 0, Fin 0, Fin 0, Fin 0, Fin 0, Fin 0, Fin 0]
           [Fin 1, Fin 1, Fin 1] (Fin 1) =
           Inr (new_state, [(new_state ! 0, new_state ! 1), (new_state ! 2, new_state ! 3),
                            (new_state ! 4, new_state ! 5)]))"
  using update_simulation_unchecked
    [of "[PInf, Fin 0, Fin 0, Fin 0, Fin 0, Fin 0, Fin 0, Fin 0, Fin 0, Fin 0, Fin 0, Fin 0]"
        "[Fin 1, Fin 1, Fin 1]" "Fin 1"]
  by auto

end
